theory Spec2Isabelle
  imports Main
begin

section \<open>The data model: the three tables of the migration\<close>

text \<open>
  The store is the PostgreSQL schema of the migration: the tables \<open>profiles\<close>,
  \<open>doctors\<close> and \<open>consultations\<close>, their row-level security policies and the
  \<open>updated_at\<close> trigger. Identities are uuids (text on the client), timestamps are
  points of a clock. The \<open>CHECK (... IN (...))\<close> constraints on \<open>user_type\<close>,
  \<open>status\<close> and \<open>urgency_level\<close> are the three enumerations below, as the
  client's \<open>Database\<close> type has them; \<open>NOT NULL\<close> is a field that is not an option.
\<close>

type_synonym uuid = string
type_synonym timestamptz = nat

datatype user_type = Patient | Doctor

datatype status = Pending | Assigned | In_progress | Completed | Cancelled

datatype urgency_level = Low | Medium | High | Critical

record profiles_row =
  profiles_id :: uuid
  user_type :: user_type
  full_name :: string
  phone :: "string option"
  profiles_created_at :: timestamptz
  profiles_updated_at :: timestamptz

record doctors_row =
  doctors_id :: uuid
  specialization :: string
  license_number :: string
  is_available :: bool
  years_of_experience :: int
  bio :: "string option"
  doctors_created_at :: timestamptz
  doctors_updated_at :: timestamptz

record consultations_row =
  consultation_id :: uuid
  patient_id :: uuid
  doctor_id :: "uuid option"
  status :: status
  urgency_level :: urgency_level
  symptoms :: string
  consultation_notes :: "string option"
  scheduled_at :: "timestamptz option"
  started_at :: "timestamptz option"
  completed_at :: "timestamptz option"
  created_at :: timestamptz
  updated_at :: timestamptz

text \<open>
  The \<open>Insert\<close> and \<open>Update\<close> shapes of \<open>consultations\<close> in the client's
  \<open>Database\<close> type: an optional key is an option (\<open>None\<close>: the key is absent from
  the request), and a nullable column that is optional is an option of an option
  (\<open>Some None\<close>: the key is present with the value null).
\<close>

record consultations_insert =
  i_id :: "uuid option"
  i_patient_id :: uuid
  i_doctor_id :: "uuid option option"
  i_status :: "status option"
  i_urgency_level :: urgency_level
  i_symptoms :: string
  i_notes :: "string option option"
  i_scheduled_at :: "timestamptz option option"
  i_started_at :: "timestamptz option option"
  i_completed_at :: "timestamptz option option"
  i_created_at :: "timestamptz option"
  i_updated_at :: "timestamptz option"

record consultations_update =
  u_id :: "uuid option"
  u_patient_id :: "uuid option"
  u_doctor_id :: "uuid option option"
  u_status :: "status option"
  u_urgency_level :: "urgency_level option"
  u_symptoms :: "string option"
  u_notes :: "string option option"
  u_scheduled_at :: "timestamptz option option"
  u_started_at :: "timestamptz option option"
  u_completed_at :: "timestamptz option option"
  u_created_at :: "timestamptz option"
  u_updated_at :: "timestamptz option"

record db =
  profiles :: "profiles_row list"
  doctors :: "doctors_row list"
  consultations :: "consultations_row list"

definition no_update :: consultations_update where
  "no_update = \<lparr>u_id = None, u_patient_id = None, u_doctor_id = None, u_status = None,
     u_urgency_level = None, u_symptoms = None, u_notes = None, u_scheduled_at = None,
     u_started_at = None, u_completed_at = None, u_created_at = None, u_updated_at = None\<rparr>"

section \<open>Row-level security policies\<close>

text \<open>
  Each policy is a predicate of the store, of \<open>auth.uid()\<close> (the caller) and of a row.
  A subquery of a policy runs as the caller, so it sees the rows that the \<open>SELECT\<close>
  policy of its table shows: the caller's own profile (\<open>Users can view own profile\<close>)
  and every doctor (\<open>Anyone can view doctor profiles\<close>). A comparison with a null
  \<open>doctor_id\<close> is not true, so a null \<open>doctor_id\<close> is in no subquery result.
\<close>

definition users_can_view_own_profile :: "uuid \<Rightarrow> profiles_row \<Rightarrow> bool" where
  "users_can_view_own_profile uid p = (uid = profiles_id p)"

definition anyone_can_view_doctor_profiles :: "uuid \<Rightarrow> doctors_row \<Rightarrow> bool" where
  "anyone_can_view_doctor_profiles uid x = True"

text \<open>\<open>SELECT id FROM doctors WHERE id = auth.uid()\<close>\<close>

definition doctors_where_id :: "db \<Rightarrow> uuid \<Rightarrow> uuid list" where
  "doctors_where_id d uid =
     map doctors_id
       (filter (\<lambda>x. anyone_can_view_doctor_profiles uid x \<and> doctors_id x = uid) (doctors d))"

text \<open>\<open>EXISTS (SELECT 1 FROM doctors WHERE id = auth.uid())\<close>\<close>

definition exists_doctor :: "db \<Rightarrow> uuid \<Rightarrow> bool" where
  "exists_doctor d uid = (doctors_where_id d uid \<noteq> [])"

text \<open>\<open>EXISTS (SELECT 1 FROM profiles WHERE id = auth.uid() AND user_type = t)\<close>\<close>

definition exists_profile :: "db \<Rightarrow> uuid \<Rightarrow> user_type \<Rightarrow> bool" where
  "exists_profile d uid t =
     (filter (\<lambda>p. users_can_view_own_profile uid p \<and> profiles_id p = uid \<and> user_type p = t)
        (profiles d) \<noteq> [])"

text \<open>\<open>doctor_id IN (SELECT id FROM doctors WHERE id = auth.uid())\<close>\<close>

definition doctor_id_in_doctors :: "db \<Rightarrow> uuid \<Rightarrow> consultations_row \<Rightarrow> bool" where
  "doctor_id_in_doctors d uid r =
     (case doctor_id r of None \<Rightarrow> False | Some x \<Rightarrow> x \<in> set (doctors_where_id d uid))"

text \<open>Policy \<open>Patients can view own consultations\<close> (\<open>FOR SELECT USING\<close>).\<close>

definition patients_can_view_own_consultations :: "db \<Rightarrow> uuid \<Rightarrow> consultations_row \<Rightarrow> bool" where
  "patients_can_view_own_consultations d uid r =
     (patient_id r = uid \<or> doctor_id_in_doctors d uid r)"

text \<open>Policy \<open>Patients can create consultations\<close> (\<open>FOR INSERT WITH CHECK\<close>).\<close>

definition patients_can_create_consultations :: "db \<Rightarrow> uuid \<Rightarrow> consultations_row \<Rightarrow> bool" where
  "patients_can_create_consultations d uid r =
     (patient_id r = uid \<and> exists_profile d uid Patient)"

text \<open>Policy \<open>Patients can update own consultations\<close> (\<open>FOR UPDATE\<close>).\<close>

definition patients_can_update_own_consultations_using :: "uuid \<Rightarrow> consultations_row \<Rightarrow> bool" where
  "patients_can_update_own_consultations_using uid r = (patient_id r = uid)"

definition patients_can_update_own_consultations_check :: "uuid \<Rightarrow> consultations_row \<Rightarrow> bool" where
  "patients_can_update_own_consultations_check uid r = (patient_id r = uid)"

text \<open>Policy \<open>Doctors can update assigned consultations\<close> (\<open>FOR UPDATE\<close>).\<close>

definition doctors_can_update_assigned_consultations_using ::
  "db \<Rightarrow> uuid \<Rightarrow> consultations_row \<Rightarrow> bool" where
  "doctors_can_update_assigned_consultations_using d uid r =
     (doctor_id_in_doctors d uid r \<or> (doctor_id r = None \<and> exists_doctor d uid))"

definition doctors_can_update_assigned_consultations_check ::
  "db \<Rightarrow> uuid \<Rightarrow> consultations_row \<Rightarrow> bool" where
  "doctors_can_update_assigned_consultations_check d uid r = doctor_id_in_doctors d uid r"

text \<open>
  The policies are permissive, so those of one command are joined by \<open>OR\<close>: the
  \<open>USING\<close> clauses among themselves and the \<open>WITH CHECK\<close> clauses among themselves.
\<close>

definition update_using :: "db \<Rightarrow> uuid \<Rightarrow> consultations_row \<Rightarrow> bool" where
  "update_using d uid r =
     (patients_can_update_own_consultations_using uid r \<or>
      doctors_can_update_assigned_consultations_using d uid r)"

definition update_with_check :: "db \<Rightarrow> uuid \<Rightarrow> consultations_row \<Rightarrow> bool" where
  "update_with_check d uid r =
     (patients_can_update_own_consultations_check uid r \<or>
      doctors_can_update_assigned_consultations_check d uid r)"

section \<open>The statements the client sends\<close>

datatype store_error = Row_level_security | Unique_violation | Foreign_key_violation

text \<open>Trigger function \<open>update_updated_at_column\<close>, \<open>BEFORE UPDATE FOR EACH ROW\<close>.\<close>

definition update_updated_at_column :: "timestamptz \<Rightarrow> consultations_row \<Rightarrow> consultations_row" where
  "update_updated_at_column now new = new\<lparr>updated_at := now\<rparr>"

definition set_columns :: "consultations_update \<Rightarrow> consultations_row \<Rightarrow> consultations_row" where
  "set_columns u r =
     \<lparr>consultation_id = (case u_id u of None \<Rightarrow> consultation_id r | Some v \<Rightarrow> v),
      patient_id = (case u_patient_id u of None \<Rightarrow> patient_id r | Some v \<Rightarrow> v),
      doctor_id = (case u_doctor_id u of None \<Rightarrow> doctor_id r | Some v \<Rightarrow> v),
      status = (case u_status u of None \<Rightarrow> status r | Some v \<Rightarrow> v),
      urgency_level = (case u_urgency_level u of None \<Rightarrow> urgency_level r | Some v \<Rightarrow> v),
      symptoms = (case u_symptoms u of None \<Rightarrow> symptoms r | Some v \<Rightarrow> v),
      consultation_notes = (case u_notes u of None \<Rightarrow> consultation_notes r | Some v \<Rightarrow> v),
      scheduled_at = (case u_scheduled_at u of None \<Rightarrow> scheduled_at r | Some v \<Rightarrow> v),
      started_at = (case u_started_at u of None \<Rightarrow> started_at r | Some v \<Rightarrow> v),
      completed_at = (case u_completed_at u of None \<Rightarrow> completed_at r | Some v \<Rightarrow> v),
      created_at = (case u_created_at u of None \<Rightarrow> created_at r | Some v \<Rightarrow> v),
      updated_at = (case u_updated_at u of None \<Rightarrow> updated_at r | Some v \<Rightarrow> v)\<rparr>"

text \<open>
  The foreign keys \<open>patient_id REFERENCES profiles(id)\<close> and
  \<open>doctor_id REFERENCES doctors(id)\<close> (a null reference is always allowed), and the
  primary key on \<open>id\<close>.
\<close>

definition patient_fk :: "db \<Rightarrow> consultations_row \<Rightarrow> bool" where
  "patient_fk d r = (patient_id r \<in> set (map profiles_id (profiles d)))"

definition doctor_fk :: "db \<Rightarrow> consultations_row \<Rightarrow> bool" where
  "doctor_fk d r =
     (case doctor_id r of None \<Rightarrow> True | Some x \<Rightarrow> x \<in> set (map doctors_id (doctors d)))"

definition id_taken :: "db \<Rightarrow> uuid \<Rightarrow> bool" where
  "id_taken d i = (i \<in> set (map consultation_id (consultations d)))"

text \<open>
  \<open>UPDATE consultations SET ... WHERE id = target\<close>, one row of the table. The
  \<open>WHERE\<close> clause reads a column, so the statement needs \<open>SELECT\<close> rights and
  PostgreSQL applies the \<open>SELECT\<close> policy next to the \<open>UPDATE\<close> policies: a row is
  a target when it matches the \<open>WHERE\<close> clause and passes both the \<open>SELECT\<close> policy
  and a \<open>USING\<close> clause of an \<open>UPDATE\<close> policy, and a row that is no target is
  skipped without an error. The new row of a target (after the \<open>BEFORE UPDATE\<close>
  trigger) must pass a \<open>WITH CHECK\<close> clause of an \<open>UPDATE\<close> policy and the
  \<open>SELECT\<close> policy, or the statement fails; then the keys that changed are checked.
\<close>

definition update_row ::
  "db \<Rightarrow> uuid \<Rightarrow> timestamptz \<Rightarrow> consultations_update \<Rightarrow> uuid \<Rightarrow> consultations_row
     \<Rightarrow> store_error + consultations_row" where
  "update_row d uid now u target r =
     (if consultation_id r = target \<and> patients_can_view_own_consultations d uid r \<and>
         update_using d uid r
      then
        (let new = update_updated_at_column now (set_columns u r) in
         if \<not> (update_with_check d uid new \<and> patients_can_view_own_consultations d uid new)
           then Inl Row_level_security
         else if consultation_id new \<noteq> consultation_id r \<and> id_taken d (consultation_id new)
           then Inl Unique_violation
         else if patient_id new \<noteq> patient_id r \<and> \<not> patient_fk d new
           then Inl Foreign_key_violation
         else if doctor_id new \<noteq> doctor_id r \<and> \<not> doctor_fk d new
           then Inl Foreign_key_violation
         else Inr new)
      else Inr r)"

fun update_rows ::
  "(consultations_row \<Rightarrow> store_error + consultations_row) \<Rightarrow> consultations_row list
     \<Rightarrow> store_error + consultations_row list" where
  "update_rows f [] = Inr []"
| "update_rows f (r # rs) =
     (case f r of
        Inl e \<Rightarrow> Inl e
      | Inr r' \<Rightarrow> (case update_rows f rs of Inl e \<Rightarrow> Inl e | Inr rs' \<Rightarrow> Inr (r' # rs')))"

text \<open>
  The whole statement: it is atomic, so an error at any row leaves the table as it was
  (the result is the error alone).
\<close>

definition update_consultations ::
  "db \<Rightarrow> uuid \<Rightarrow> timestamptz \<Rightarrow> consultations_update \<Rightarrow> uuid \<Rightarrow> store_error + db" where
  "update_consultations d uid now u target =
     (case update_rows (update_row d uid now u target) (consultations d) of
        Inl e \<Rightarrow> Inl e
      | Inr rs \<Rightarrow> Inr (d\<lparr>consultations := rs\<rparr>))"

text \<open>
  \<open>INSERT INTO consultations\<close> of one row. The column defaults fill the absent keys:
  \<open>gen_random_uuid()\<close> for \<open>id\<close> (the argument \<open>fresh\<close>), \<open>'pending'\<close> for
  \<open>status\<close>, \<open>now()\<close> for \<open>created_at\<close> and \<open>updated_at\<close>, null for the rest.
\<close>

definition insert_defaults :: "timestamptz \<Rightarrow> uuid \<Rightarrow> consultations_insert \<Rightarrow> consultations_row" where
  "insert_defaults now fresh i =
     \<lparr>consultation_id = (case i_id i of None \<Rightarrow> fresh | Some v \<Rightarrow> v),
      patient_id = i_patient_id i,
      doctor_id = (case i_doctor_id i of None \<Rightarrow> None | Some v \<Rightarrow> v),
      status = (case i_status i of None \<Rightarrow> Pending | Some v \<Rightarrow> v),
      urgency_level = i_urgency_level i,
      symptoms = i_symptoms i,
      consultation_notes = (case i_notes i of None \<Rightarrow> None | Some v \<Rightarrow> v),
      scheduled_at = (case i_scheduled_at i of None \<Rightarrow> None | Some v \<Rightarrow> v),
      started_at = (case i_started_at i of None \<Rightarrow> None | Some v \<Rightarrow> v),
      completed_at = (case i_completed_at i of None \<Rightarrow> None | Some v \<Rightarrow> v),
      created_at = (case i_created_at i of None \<Rightarrow> now | Some v \<Rightarrow> v),
      updated_at = (case i_updated_at i of None \<Rightarrow> now | Some v \<Rightarrow> v)\<rparr>"

definition insert_consultations ::
  "db \<Rightarrow> uuid \<Rightarrow> timestamptz \<Rightarrow> uuid \<Rightarrow> consultations_insert \<Rightarrow> store_error + db" where
  "insert_consultations d uid now fresh i =
     (let new = insert_defaults now fresh i in
      if \<not> patients_can_create_consultations d uid new then Inl Row_level_security
      else if id_taken d (consultation_id new) then Inl Unique_violation
      else if \<not> patient_fk d new then Inl Foreign_key_violation
      else if \<not> doctor_fk d new then Inl Foreign_key_violation
      else Inr (d\<lparr>consultations := consultations d @ [new]\<rparr>))"

text \<open>
  \<open>SELECT * FROM consultations WHERE filter ORDER BY created_at DESC\<close>: the rows
  that pass the \<open>SELECT\<close> policy and the filter, newest first. PostgreSQL fixes no
  order among rows of equal \<open>created_at\<close>; here the row stored later comes first.
\<close>

definition select_consultations ::
  "db \<Rightarrow> uuid \<Rightarrow> (consultations_row \<Rightarrow> bool) \<Rightarrow> consultations_row list" where
  "select_consultations d uid flt =
     rev (sort_key created_at
       (filter (\<lambda>r. patients_can_view_own_consultations d uid r \<and> flt r) (consultations d)))"

section \<open>The client: the home screen and the consultations screen\<close>

text \<open>
  A handler runs for a signed-in caller: \<open>uid\<close> is the identity of the session (the
  store's \<open>auth.uid()\<close>) and \<open>profile\<close> is the value of \<open>useAuth().profile\<close>, null
  until a profile is loaded. The flags \<open>loading\<close> and \<open>refreshing\<close> only drive
  spinners and are left out, as are the names joined to a fetched row for display.
\<close>

datatype alert = Alert string string

datatype js_error = TypeError

definition isPatient :: "profiles_row option \<Rightarrow> bool" where
  "isPatient profile = (case profile of None \<Rightarrow> False | Some p \<Rightarrow> user_type p = Patient)"

definition isDoctor :: "profiles_row option \<Rightarrow> bool" where
  "isDoctor profile = (case profile of None \<Rightarrow> False | Some p \<Rightarrow> user_type p = Doctor)"

text \<open>
  \<open>String.prototype.trim\<close>: white space and line terminators are removed at both
  ends (here those of the 8-bit range: tab, line feed, vertical tab, form feed,
  carriage return, space, no-break space).
\<close>

definition is_white_space :: "char \<Rightarrow> bool" where
  "is_white_space c =
     (c \<in> set [CHR 0x09, CHR 0x0A, CHR 0x0B, CHR 0x0C, CHR 0x0D, CHR 0x20, CHR 0xA0])"

definition trim :: "string \<Rightarrow> string" where
  "trim s = rev (dropWhile is_white_space (rev (dropWhile is_white_space s)))"

record home_screen =
  symptoms_state :: string
  urgencyLevel :: urgency_level

text \<open>
  \<open>handleRequestConsultation\<close> of the home screen. \<open>profile!.id\<close> throws a
  \<open>TypeError\<close> when the profile is null, before any request is sent. The handler
  returns nothing: its effects are the alert, the form state and the store.
\<close>

definition handleRequestConsultation ::
  "db \<Rightarrow> uuid \<Rightarrow> profiles_row option \<Rightarrow> timestamptz \<Rightarrow> uuid \<Rightarrow> home_screen
     \<Rightarrow> js_error + (alert \<times> home_screen \<times> db)" where
  "handleRequestConsultation d uid profile now fresh s =
     (if trim (symptoms_state s) = []
      then Inr (Alert ''Error'' ''Please describe your symptoms'', s, d)
      else
        (case profile of
           None \<Rightarrow> Inl TypeError
         | Some p \<Rightarrow>
            (case insert_consultations d uid now fresh
                    \<lparr>i_id = None, i_patient_id = profiles_id p, i_doctor_id = None,
                     i_status = Some Pending, i_urgency_level = urgencyLevel s,
                     i_symptoms = trim (symptoms_state s), i_notes = None,
                     i_scheduled_at = None, i_started_at = None, i_completed_at = None,
                     i_created_at = None, i_updated_at = None\<rparr> of
               Inl e \<Rightarrow>
                 Inr (Alert ''Error'' ''Failed to request consultation. Please try again.'', s, d)
             | Inr d' \<Rightarrow>
                 Inr (Alert ''Success''
                        ''Your consultation request has been submitted. A doctor will be assigned shortly.'',
                      \<lparr>symptoms_state = [], urgencyLevel = Medium\<rparr>, d'))))"

text \<open>
  \<open>fetchConsultations\<close>: the new value of the screen's list \<open>consultations\<close>
  (\<open>shown\<close>). With a null profile the filter value is \<open>undefined\<close>, which is no
  uuid: the request fails and the list stays.
\<close>

definition fetchConsultations ::
  "db \<Rightarrow> uuid \<Rightarrow> profiles_row option \<Rightarrow> consultations_row list \<Rightarrow> consultations_row list" where
  "fetchConsultations d uid profile shown =
     (case profile of
        None \<Rightarrow> shown
      | Some p \<Rightarrow>
         if isDoctor profile
         then select_consultations d uid
                (\<lambda>r. doctor_id r = Some (profiles_id p) \<or> status r = Pending)
         else select_consultations d uid (\<lambda>r. patient_id r = profiles_id p))"

text \<open>
  The three handlers of the consultations screen. Each sends one \<open>UPDATE\<close> filtered
  by \<open>id\<close> alone; an undefined value (\<open>profile?.id\<close> of a null profile) is dropped
  from the request body. An update that changes no row is no error. \<open>date\<close> is the
  client's clock (\<open>new Date()\<close>), \<open>now\<close> the store's.
\<close>

definition handleAcceptConsultation ::
  "db \<Rightarrow> uuid \<Rightarrow> profiles_row option \<Rightarrow> timestamptz \<Rightarrow> consultations_row list \<Rightarrow> uuid
     \<Rightarrow> alert option \<times> consultations_row list \<times> db" where
  "handleAcceptConsultation d uid profile now shown consultationId =
     (case update_consultations d uid now
             (no_update\<lparr>u_doctor_id :=
                           (case profile of None \<Rightarrow> None | Some p \<Rightarrow> Some (Some (profiles_id p))),
                        u_status := Some Assigned\<rparr>)
             consultationId of
        Inl e \<Rightarrow> (Some (Alert ''Error'' ''Failed to accept consultation''), shown, d)
      | Inr d' \<Rightarrow>
          (Some (Alert ''Success'' ''Consultation accepted''),
           fetchConsultations d' uid profile shown, d'))"

definition handleStartConsultation ::
  "db \<Rightarrow> uuid \<Rightarrow> profiles_row option \<Rightarrow> timestamptz \<Rightarrow> timestamptz \<Rightarrow> consultations_row list
     \<Rightarrow> uuid \<Rightarrow> alert option \<times> consultations_row list \<times> db" where
  "handleStartConsultation d uid profile date now shown consultationId =
     (case update_consultations d uid now
             (no_update\<lparr>u_status := Some In_progress, u_started_at := Some (Some date)\<rparr>)
             consultationId of
        Inl e \<Rightarrow> (Some (Alert ''Error'' ''Failed to start consultation''), shown, d)
      | Inr d' \<Rightarrow> (None, fetchConsultations d' uid profile shown, d'))"

definition handleCompleteConsultation ::
  "db \<Rightarrow> uuid \<Rightarrow> profiles_row option \<Rightarrow> timestamptz \<Rightarrow> timestamptz \<Rightarrow> consultations_row list
     \<Rightarrow> uuid \<Rightarrow> alert option \<times> consultations_row list \<times> db" where
  "handleCompleteConsultation d uid profile date now shown consultationId =
     (case update_consultations d uid now
             (no_update\<lparr>u_status := Some Completed, u_completed_at := Some (Some date)\<rparr>)
             consultationId of
        Inl e \<Rightarrow> (Some (Alert ''Error'' ''Failed to complete consultation''), shown, d)
      | Inr d' \<Rightarrow>
          (Some (Alert ''Success'' ''Consultation completed''),
           fetchConsultations d' uid profile shown, d'))"

text \<open>
  \<open>renderConsultation\<close>: which button a displayed item gets. \<open>!item.doctor_id\<close>
  holds of null and of the empty string.
\<close>

definition isPending :: "profiles_row option \<Rightarrow> consultations_row \<Rightarrow> bool" where
  "isPending profile item =
     (status item = Pending \<and> isDoctor profile \<and> (doctor_id item = None \<or> doctor_id item = Some []))"

definition isAssigned :: "profiles_row option \<Rightarrow> consultations_row \<Rightarrow> bool" where
  "isAssigned profile item =
     (status item = Assigned \<and> isDoctor profile \<and>
      (case profile of None \<Rightarrow> False | Some p \<Rightarrow> doctor_id item = Some (profiles_id p)))"

definition isInProgress :: "profiles_row option \<Rightarrow> consultations_row \<Rightarrow> bool" where
  "isInProgress profile item =
     (status item = In_progress \<and> isDoctor profile \<and>
      (case profile of None \<Rightarrow> False | Some p \<Rightarrow> doctor_id item = Some (profiles_id p)))"

section \<open>Sessions: the buttons a signed-in user can press\<close>

text \<open>
  Modelled from the spec: the module \<open>contexts/AuthContext\<close> behind \<open>useAuth\<close> is
  not among the sources. Section 4.1 of the specification: given the caller's identity,
  the caller's profile is the unique profile whose identity matches, and a caller
  without a profile has no role.
\<close>

definition useAuth_profile :: "db \<Rightarrow> uuid \<Rightarrow> profiles_row option" where
  "useAuth_profile d uid = find (\<lambda>p. profiles_id p = uid) (profiles d)"

text \<open>
  What the two screens expose. The home screen renders the request form only when
  \<open>isPatient\<close>; the consultations screen renders a button on a displayed item only
  when \<open>isPending\<close>, \<open>isAssigned\<close> or \<open>isInProgress\<close> holds of that item. The
  item is the row as it was last fetched, so it may differ from the row now stored: it is
  an arbitrary row here. A press whose button is not rendered does nothing. The list on
  the screen is not carried from one press to the next: no handler's effect on the store
  depends on it.
\<close>

datatype press =
    Request_consultation timestamptz uuid home_screen
  | Accept_consultation timestamptz consultations_row
  | Start_consultation timestamptz timestamptz consultations_row
  | Complete_consultation timestamptz timestamptz consultations_row

definition press_button :: "db \<Rightarrow> uuid \<Rightarrow> press \<Rightarrow> db" where
  "press_button d uid b =
     (let profile = useAuth_profile d uid in
      case b of
        Request_consultation now fresh s \<Rightarrow>
          (if isPatient profile
           then (case handleRequestConsultation d uid profile now fresh s of
                   Inl e \<Rightarrow> d
                 | Inr res \<Rightarrow> snd (snd res))
           else d)
      | Accept_consultation now item \<Rightarrow>
          (if isPending profile item
           then snd (snd (handleAcceptConsultation d uid profile now [] (consultation_id item)))
           else d)
      | Start_consultation date now item \<Rightarrow>
          (if isAssigned profile item
           then snd (snd (handleStartConsultation d uid profile date now [] (consultation_id item)))
           else d)
      | Complete_consultation date now item \<Rightarrow>
          (if isInProgress profile item
           then snd (snd (handleCompleteConsultation d uid profile date now [] (consultation_id item)))
           else d))"

fun run :: "db \<Rightarrow> (uuid \<times> press) list \<Rightarrow> db" where
  "run d [] = d"
| "run d ((uid, b) # bs) = run (press_button d uid b) bs"

section \<open>A small population for concrete runs\<close>

definition example_profile :: "uuid \<Rightarrow> user_type \<Rightarrow> profiles_row" where
  "example_profile i t =
     \<lparr>profiles_id = i, user_type = t, full_name = ''Sam'', phone = None,
      profiles_created_at = 0, profiles_updated_at = 0\<rparr>"

definition example_doctor :: "uuid \<Rightarrow> doctors_row" where
  "example_doctor i =
     \<lparr>doctors_id = i, specialization = ''Cardiology'', license_number = i,
      is_available = True, years_of_experience = 3, bio = None,
      doctors_created_at = 0, doctors_updated_at = 0\<rparr>"

definition example_consultation ::
  "uuid \<Rightarrow> uuid \<Rightarrow> uuid option \<Rightarrow> status \<Rightarrow> consultations_row" where
  "example_consultation i p dr s =
     \<lparr>consultation_id = i, patient_id = p, doctor_id = dr, status = s,
      urgency_level = High, symptoms = ''fever, chills'', consultation_notes = None,
      scheduled_at = None, started_at = None, completed_at = None,
      created_at = 1, updated_at = 1\<rparr>"

text \<open>Two patients \<open>p1\<close> and \<open>p2\<close>, two registered doctors \<open>d1\<close> and \<open>d2\<close>.\<close>

definition example_db :: "consultations_row list \<Rightarrow> db" where
  "example_db cs =
     \<lparr>profiles = [example_profile ''p1'' Patient, example_profile ''p2'' Patient,
                  example_profile ''d1'' Doctor, example_profile ''d2'' Doctor],
      doctors = [example_doctor ''d1'', example_doctor ''d2''],
      consultations = cs\<rparr>"

section \<open>Facts about the statements\<close>

lemmas policy_defs =
  users_can_view_own_profile_def anyone_can_view_doctor_profiles_def doctors_where_id_def
  exists_doctor_def exists_profile_def doctor_id_in_doctors_def
  patients_can_view_own_consultations_def patients_can_create_consultations_def
  patients_can_update_own_consultations_using_def patients_can_update_own_consultations_check_def
  doctors_can_update_assigned_consultations_using_def
  doctors_can_update_assigned_consultations_check_def update_using_def update_with_check_def

lemmas store_defs =
  update_updated_at_column_def set_columns_def patient_fk_def doctor_fk_def id_taken_def
  update_row_def update_consultations_def insert_defaults_def insert_consultations_def
  select_consultations_def no_update_def

lemmas example_defs =
  example_profile_def example_doctor_def example_consultation_def example_db_def

subsection \<open>The rows of an update\<close>

lemma update_rows_length: "update_rows f rs = Inr rs' \<Longrightarrow> length rs' = length rs"
  by (induction rs arbitrary: rs') (auto split: sum.splits)

lemma update_rows_nth:
  "update_rows f rs = Inr rs' \<Longrightarrow> i < length rs \<Longrightarrow> f (rs ! i) = Inr (rs' ! i)"
proof (induction rs arbitrary: rs' i)
  case Nil
  then show ?case by simp
next
  case (Cons r rs)
  then show ?case by (cases i) (auto split: sum.splits)
qed

lemma update_rows_map:
  "(\<And>r. r \<in> set rs \<Longrightarrow> f r = Inr (g r)) \<Longrightarrow> update_rows f rs = Inr (map g rs)"
  by (induction rs) auto

lemma update_rows_pres:
  assumes "update_rows f rs = Inr rs'"
    and "\<forall>r \<in> set rs. Q r"
    and "\<And>r r'. Q r \<Longrightarrow> f r = Inr r' \<Longrightarrow> Q r'"
  shows "\<forall>r' \<in> set rs'. Q r'"
  using assms(1,2)
proof (induction rs arbitrary: rs')
  case Nil
  then show ?case by simp
next
  case (Cons r rs)
  then show ?case by (auto split: sum.splits intro: assms(3))
qed

lemma update_consultations_frame:
  assumes "update_consultations d uid now u target = Inr d'"
  shows "profiles d' = profiles d \<and> doctors d' = doctors d \<and>
         update_rows (update_row d uid now u target) (consultations d) = Inr (consultations d')"
  using assms by (auto simp: update_consultations_def split: sum.splits)

lemma update_consultations_pres:
  assumes "update_consultations d uid now u t = Inr d'"
    and "\<forall>r \<in> set (consultations d). Q r"
    and "\<And>r r'. Q r \<Longrightarrow> update_row d uid now u t r = Inr r' \<Longrightarrow> Q r'"
  shows "profiles d' = profiles d \<and> (\<forall>r \<in> set (consultations d'). Q r)"
proof -
  from update_consultations_frame [OF assms(1)]
  have p: "profiles d' = profiles d"
    and rows: "update_rows (update_row d uid now u t) (consultations d) = Inr (consultations d')"
    by simp_all
  from update_rows_pres [OF rows assms(2)] assms(3) p show ?thesis by blast
qed

lemma update_row_invisible:
  "\<not> patients_can_view_own_consultations d uid r \<Longrightarrow> update_row d uid now u target r = Inr r"
  by (simp add: update_row_def)

lemma update_consultations_invisible:
  assumes "update_consultations d uid now u target = Inr d'"
    and "i < length (consultations d)"
    and "\<not> patients_can_view_own_consultations d uid (consultations d ! i)"
  shows "consultations d' ! i = consultations d ! i"
proof -
  from update_consultations_frame [OF assms(1)]
  have rows: "update_rows (update_row d uid now u target) (consultations d) = Inr (consultations d')"
    by simp
  from update_rows_nth [OF rows assms(2)] update_row_invisible [OF assms(3)]
  show ?thesis by simp
qed

lemma update_row_other_id:
  "consultation_id r \<noteq> target \<Longrightarrow> update_row d uid now u target r = Inr r"
  by (simp add: update_row_def)

lemma update_row_accepted:
  assumes "update_row d uid now u target r = Inr r'"
    and "consultation_id r = target" and "patients_can_view_own_consultations d uid r"
    and "update_using d uid r"
  shows "r' = update_updated_at_column now (set_columns u r) \<and> update_with_check d uid r' \<and>
         patients_can_view_own_consultations d uid r'"
  using assms by (simp add: update_row_def Let_def split: if_splits)

lemma touched_row_is_visible:
  assumes "update_row d uid now u target r = Inr r'" and "r' \<noteq> r"
  shows "patients_can_view_own_consultations d uid r"
  using assms by (auto simp: update_row_def split: if_splits)

lemma primary_key:
  "distinct (map consultation_id rs) \<Longrightarrow> r \<in> set rs \<Longrightarrow> x \<in> set rs \<Longrightarrow>
   consultation_id x = consultation_id r \<Longrightarrow> x = r"
  by (auto simp: distinct_map dest: inj_onD)

lemma update_one_row:
  assumes "distinct (map consultation_id (consultations d))"
    and "r \<in> set (consultations d)"
    and "update_row d uid now u (consultation_id r) r = Inr r'"
  shows "update_consultations d uid now u (consultation_id r) =
           Inr (d\<lparr>consultations :=
                  map (\<lambda>x. if consultation_id x = consultation_id r then r' else x) (consultations d)\<rparr>)"
proof -
  have "update_rows (update_row d uid now u (consultation_id r)) (consultations d) =
          Inr (map (\<lambda>x. if consultation_id x = consultation_id r then r' else x) (consultations d))"
  proof (rule update_rows_map)
    fix y assume y: "y \<in> set (consultations d)"
    show "update_row d uid now u (consultation_id r) y =
            Inr (if consultation_id y = consultation_id r then r' else y)"
    proof (cases "consultation_id y = consultation_id r")
      case True
      with primary_key [OF assms(1,2) y] have "y = r" by simp
      with assms(3) show ?thesis by simp
    next
      case False
      then show ?thesis by (simp add: update_row_other_id)
    qed
  qed
  then show ?thesis by (simp add: update_consultations_def)
qed

subsection \<open>Who passes which policy\<close>

lemma exists_profile_iff:
  "exists_profile d uid t = (\<exists>p \<in> set (profiles d). profiles_id p = uid \<and> user_type p = t)"
  by (auto simp: exists_profile_def users_can_view_own_profile_def filter_empty_conv)

lemma exists_profile_same_profiles:
  "profiles d' = profiles d \<Longrightarrow> exists_profile d' uid t = exists_profile d uid t"
  by (simp add: exists_profile_def)

lemma one_role:
  assumes "distinct (map profiles_id (profiles d))"
    and "exists_profile d uid t" and "exists_profile d uid t'"
  shows "t = t'"
proof -
  from assms(2,3) obtain p q where p: "p \<in> set (profiles d)" "profiles_id p = uid" "user_type p = t"
    and q: "q \<in> set (profiles d)" "profiles_id q = uid" "user_type q = t'"
    by (auto simp: exists_profile_iff)
  from assms(1) have "inj_on profiles_id (set (profiles d))" by (simp add: distinct_map)
  with p q have "p = q" by (auto dest: inj_onD)
  with p q show ?thesis by simp
qed

lemma not_visible_other_doctor:
  "patient_id r \<noteq> uid \<Longrightarrow> doctor_id r = Some x \<Longrightarrow> x \<noteq> uid \<Longrightarrow>
   \<not> patients_can_view_own_consultations d uid r"
  by (auto simp: patients_can_view_own_consultations_def doctor_id_in_doctors_def doctors_where_id_def)

lemma not_visible_unrelated:
  "patient_id r \<noteq> uid \<Longrightarrow> \<not> (doctor_id r = Some uid \<and> exists_doctor d uid) \<Longrightarrow>
   \<not> patients_can_view_own_consultations d uid r"
  by (auto simp: patients_can_view_own_consultations_def doctor_id_in_doctors_def
      exists_doctor_def doctors_where_id_def filter_empty_conv split: option.splits)

lemma visible_to_own_doctor:
  "doctor_id r = Some uid \<Longrightarrow> exists_doctor d uid \<Longrightarrow>
   patients_can_view_own_consultations d uid r \<and> update_using d uid r \<and> update_with_check d uid r"
  by (auto simp: policy_defs filter_empty_conv)

lemma doctor_sees_assigned_only:
  assumes "distinct (map profiles_id (profiles d))"
    and "exists_profile d uid Doctor"
    and "exists_profile d (patient_id r) Patient"
    and "patients_can_view_own_consultations d uid r"
  shows "doctor_id r \<noteq> None"
proof -
  have "patient_id r \<noteq> uid"
  proof
    assume "patient_id r = uid"
    with assms(3) have "exists_profile d uid Patient" by simp
    from one_role [OF assms(1) this assms(2)] show False by simp
  qed
  with assms(4) show ?thesis
    by (auto simp: patients_can_view_own_consultations_def doctor_id_in_doctors_def
        split: option.splits)
qed

lemma fetch_visible:
  "r \<in> set (fetchConsultations d uid (Some p) shown) \<Longrightarrow> patients_can_view_own_consultations d uid r"
  by (auto simp: fetchConsultations_def select_consultations_def split: if_splits)

lemma useAuth_profile_role:
  assumes "useAuth_profile d uid = Some p"
  shows "profiles_id p = uid \<and> exists_profile d uid (user_type p)"
proof -
  from assms have "p \<in> set (profiles d) \<and> profiles_id p = uid"
    by (auto simp: useAuth_profile_def find_Some_iff)
  then show ?thesis by (auto simp: exists_profile_iff)
qed

subsection \<open>What each handler writes\<close>

lemma started_row:
  "update_row d uid now (no_update\<lparr>u_status := Some In_progress, u_started_at := Some (Some date)\<rparr>) target r = Inr r'
   \<Longrightarrow> r' = r \<or> r' = r\<lparr>status := In_progress, started_at := Some date, updated_at := now\<rparr>"
  by (auto simp: update_row_def Let_def set_columns_def no_update_def update_updated_at_column_def split: if_splits)

lemma completed_row:
  "update_row d uid now (no_update\<lparr>u_status := Some Completed, u_completed_at := Some (Some date)\<rparr>) target r = Inr r'
   \<Longrightarrow> r' = r \<or> r' = r\<lparr>status := Completed, completed_at := Some date, updated_at := now\<rparr>"
  by (auto simp: update_row_def Let_def set_columns_def no_update_def update_updated_at_column_def split: if_splits)

lemma accepted_row:
  assumes "update_row d uid now
             (no_update\<lparr>u_doctor_id := Some (Some x), u_status := Some Assigned\<rparr>) target r = Inr r'"
  shows "r' = r \<or> r' = r\<lparr>doctor_id := Some x, status := Assigned, updated_at := now\<rparr>"
  using assms
  by (auto simp: update_row_def Let_def set_columns_def no_update_def update_updated_at_column_def
      split: if_splits)

lemma update_row_of_own_doctor:
  assumes "doctor_id r = Some uid" and "exists_doctor d uid"
    and "u_id u = None" and "u_patient_id u = None" and "u_doctor_id u = None"
  shows "update_row d uid now u (consultation_id r) r =
           Inr (update_updated_at_column now (set_columns u r))"
proof -
  let ?new = "update_updated_at_column now (set_columns u r)"
  have same: "doctor_id ?new = Some uid" "consultation_id ?new = consultation_id r"
    "patient_id ?new = patient_id r"
    using assms by (simp_all add: update_updated_at_column_def set_columns_def)
  from visible_to_own_doctor [OF assms(1,2)] visible_to_own_doctor [OF same(1) assms(2)] same assms(1)
  show ?thesis by (simp add: update_row_def Let_def)
qed

lemma accept_row_of_own_doctor:
  assumes "doctor_id r = Some uid" and "exists_doctor d uid"
  shows "update_row d uid now
           (no_update\<lparr>u_doctor_id := Some (Some uid), u_status := Some Assigned\<rparr>)
           (consultation_id r) r =
         Inr (r\<lparr>doctor_id := Some uid, status := Assigned, updated_at := now\<rparr>)"
proof -
  let ?new = "r\<lparr>doctor_id := Some uid, status := Assigned, updated_at := now\<rparr>"
  have new: "update_updated_at_column now
      (set_columns (no_update\<lparr>u_doctor_id := Some (Some uid), u_status := Some Assigned\<rparr>) r) = ?new"
    by (simp add: update_updated_at_column_def set_columns_def no_update_def)
  have "doctor_id ?new = Some uid" by simp
  from visible_to_own_doctor [OF assms] visible_to_own_doctor [OF this assms(2)] assms(1)
  show ?thesis by (simp add: update_row_def Let_def new)
qed

lemma start_store:
  assumes "i < length (consultations d)"
    and "d' = snd (snd (handleStartConsultation d uid profile date now shown target))"
  shows "profiles d' = profiles d \<and> doctors d' = doctors d \<and>
         length (consultations d') = length (consultations d) \<and>
         (consultations d' ! i = consultations d ! i \<or>
          consultations d' ! i =
            (consultations d ! i)\<lparr>status := In_progress, started_at := Some date, updated_at := now\<rparr>)"
proof (cases "update_consultations d uid now
    (no_update\<lparr>u_status := Some In_progress, u_started_at := Some (Some date)\<rparr>) target")
  case (Inl e)
  then show ?thesis using assms by (simp add: handleStartConsultation_def)
next
  case (Inr d2)
  then have d': "d' = d2" using assms by (simp add: handleStartConsultation_def)
  note fr = update_consultations_frame [OF Inr]
  from fr have rows: "update_rows (update_row d uid now
      (no_update\<lparr>u_status := Some In_progress, u_started_at := Some (Some date)\<rparr>) target)
      (consultations d) = Inr (consultations d2)" by simp
  have "consultations d2 ! i = consultations d ! i \<or> consultations d2 ! i =
      (consultations d ! i)\<lparr>status := In_progress, started_at := Some date, updated_at := now\<rparr>"
    by (rule started_row [OF update_rows_nth [OF rows assms(1)]])
  with fr update_rows_length [OF rows] show ?thesis unfolding d' by simp
qed

lemma complete_store:
  assumes "i < length (consultations d)"
    and "d' = snd (snd (handleCompleteConsultation d uid profile date now shown target))"
  shows "profiles d' = profiles d \<and> doctors d' = doctors d \<and>
         length (consultations d') = length (consultations d) \<and>
         (consultations d' ! i = consultations d ! i \<or>
          consultations d' ! i =
            (consultations d ! i)\<lparr>status := Completed, completed_at := Some date, updated_at := now\<rparr>)"
proof (cases "update_consultations d uid now
    (no_update\<lparr>u_status := Some Completed, u_completed_at := Some (Some date)\<rparr>) target")
  case (Inl e)
  then show ?thesis using assms by (simp add: handleCompleteConsultation_def)
next
  case (Inr d2)
  then have d': "d' = d2" using assms by (simp add: handleCompleteConsultation_def)
  note fr = update_consultations_frame [OF Inr]
  from fr have rows: "update_rows (update_row d uid now
      (no_update\<lparr>u_status := Some Completed, u_completed_at := Some (Some date)\<rparr>) target)
      (consultations d) = Inr (consultations d2)" by simp
  have "consultations d2 ! i = consultations d ! i \<or> consultations d2 ! i =
      (consultations d ! i)\<lparr>status := Completed, completed_at := Some date, updated_at := now\<rparr>"
    by (rule completed_row [OF update_rows_nth [OF rows assms(1)]])
  with fr update_rows_length [OF rows] show ?thesis unfolding d' by simp
qed

lemma handler_db:
  "snd (snd (handleAcceptConsultation d uid profile now shown t)) = d \<or>
   update_consultations d uid now
     (no_update\<lparr>u_doctor_id :=
                   (case profile of None \<Rightarrow> None | Some p \<Rightarrow> Some (Some (profiles_id p))),
                u_status := Some Assigned\<rparr>) t =
     Inr (snd (snd (handleAcceptConsultation d uid profile now shown t)))"
  "snd (snd (handleStartConsultation d uid profile date now shown t)) = d \<or>
   update_consultations d uid now
     (no_update\<lparr>u_status := Some In_progress, u_started_at := Some (Some date)\<rparr>) t =
     Inr (snd (snd (handleStartConsultation d uid profile date now shown t)))"
  "snd (snd (handleCompleteConsultation d uid profile date now shown t)) = d \<or>
   update_consultations d uid now
     (no_update\<lparr>u_status := Some Completed, u_completed_at := Some (Some date)\<rparr>) t =
     Inr (snd (snd (handleCompleteConsultation d uid profile date now shown t)))"
  by (simp_all add: handleAcceptConsultation_def handleStartConsultation_def
      handleCompleteConsultation_def split: sum.splits)

lemma request_result:
  assumes "handleRequestConsultation d uid profile now fresh s = Inr (a, s', d')"
  shows "(d' = d \<and> s' = s \<and> a \<noteq> Alert ''Success''
            ''Your consultation request has been submitted. A doctor will be assigned shortly.'') \<or>
         (trim (symptoms_state s) \<noteq> [] \<and> profile \<noteq> None \<and>
          patients_can_create_consultations d uid
            (insert_defaults now fresh
               \<lparr>i_id = None, i_patient_id = profiles_id (the profile), i_doctor_id = None,
                i_status = Some Pending, i_urgency_level = urgencyLevel s,
                i_symptoms = trim (symptoms_state s), i_notes = None,
                i_scheduled_at = None, i_started_at = None, i_completed_at = None,
                i_created_at = None, i_updated_at = None\<rparr>) \<and>
          \<not> id_taken d fresh \<and>
          a = Alert ''Success''
            ''Your consultation request has been submitted. A doctor will be assigned shortly.'' \<and>
          s' = \<lparr>symptoms_state = [], urgencyLevel = Medium\<rparr> \<and>
          d' = d\<lparr>consultations := consultations d @
                  [insert_defaults now fresh
               \<lparr>i_id = None, i_patient_id = profiles_id (the profile), i_doctor_id = None,
                i_status = Some Pending, i_urgency_level = urgencyLevel s,
                i_symptoms = trim (symptoms_state s), i_notes = None,
                i_scheduled_at = None, i_started_at = None, i_completed_at = None,
                i_created_at = None, i_updated_at = None\<rparr>]\<rparr>)"
  using assms
  by (auto simp: handleRequestConsultation_def insert_consultations_def Let_def insert_defaults_def
      split: if_splits option.splits sum.splits)

subsection \<open>The buttons keep the table consistent\<close>

lemma press_button_invariant:
  assumes dist: "distinct (map profiles_id (profiles d))"
    and inv: "\<forall>r \<in> set (consultations d). exists_profile d (patient_id r) Patient \<and>
                ((doctor_id r \<noteq> None) = (status r \<in> {Assigned, In_progress, Completed}))"
  shows "profiles (press_button d uid b) = profiles d \<and>
         (\<forall>r \<in> set (consultations (press_button d uid b)).
            exists_profile d (patient_id r) Patient \<and>
            ((doctor_id r \<noteq> None) = (status r \<in> {Assigned, In_progress, Completed})))"
    (is "?P (press_button d uid b)")
proof (cases b)
  case (Request_consultation now fresh s)
  show ?thesis
  proof (cases "isPatient (useAuth_profile d uid)")
    case False
    with Request_consultation inv show ?thesis by (simp add: press_button_def)
  next
    case True
    show ?thesis
    proof (cases "handleRequestConsultation d uid (useAuth_profile d uid) now fresh s")
      case (Inl e)
      with True Request_consultation inv show ?thesis by (simp add: press_button_def)
    next
      case (Inr res)
      obtain a s' d' where res: "res = (a, s', d')" by (cases res)
      with Inr True Request_consultation have pb: "press_button d uid b = d'"
        by (simp add: press_button_def)
      from request_result [OF Inr [unfolded res]] inv show ?thesis unfolding pb
        by (auto simp: patients_can_create_consultations_def insert_defaults_def)
    qed
  qed
next
  case (Accept_consultation now item)
  show ?thesis
  proof (cases "isPending (useAuth_profile d uid) item")
    case False
    with Accept_consultation inv show ?thesis by (simp add: press_button_def)
  next
    case True
    then obtain p where p: "useAuth_profile d uid = Some p"
      by (auto simp: isPending_def isDoctor_def split: option.splits)
    let ?d' = "snd (snd (handleAcceptConsultation d uid (Some p) now [] (consultation_id item)))"
    from True Accept_consultation p have pb: "press_button d uid b = ?d'"
      by (simp add: press_button_def)
    from handler_db(1) [of d uid "Some p" now "[]" "consultation_id item"]
    show ?thesis unfolding pb
    proof
      assume "?d' = d"
      with inv show "?P ?d'" by simp
    next
      assume "update_consultations d uid now
        (no_update\<lparr>u_doctor_id := (case Some p of None \<Rightarrow> None | Some p \<Rightarrow> Some (Some (profiles_id p))),
           u_status := Some Assigned\<rparr>) (consultation_id item) = Inr ?d'"
      then have upd: "update_consultations d uid now
        (no_update\<lparr>u_doctor_id := Some (Some (profiles_id p)), u_status := Some Assigned\<rparr>)
        (consultation_id item) = Inr ?d'" by simp
      show "?P ?d'"
        by (rule update_consultations_pres [OF upd inv]) (auto dest!: accepted_row)
    qed
  qed
next
  case (Start_consultation date now item)
  show ?thesis
  proof (cases "isAssigned (useAuth_profile d uid) item")
    case False
    with Start_consultation inv show ?thesis by (simp add: press_button_def)
  next
    case True
    then obtain p where p: "useAuth_profile d uid = Some p" "user_type p = Doctor"
      by (auto simp: isAssigned_def isDoctor_def split: option.splits)
    from useAuth_profile_role [OF p(1)] p(2) have doc: "exists_profile d uid Doctor" by simp
    let ?d' = "snd (snd (handleStartConsultation d uid (Some p) date now [] (consultation_id item)))"
    from True Start_consultation p have pb: "press_button d uid b = ?d'"
      by (simp add: press_button_def)
    from handler_db(2) [of d uid "Some p" date now "[]" "consultation_id item"]
    show ?thesis unfolding pb
    proof
      assume "?d' = d"
      with inv show "?P ?d'" by simp
    next
      assume upd: "update_consultations d uid now
        (no_update\<lparr>u_status := Some In_progress, u_started_at := Some (Some date)\<rparr>)
        (consultation_id item) = Inr ?d'"
      show "?P ?d'"
      proof (rule update_consultations_pres [OF upd inv])
        fix r r'
        assume r: "exists_profile d (patient_id r) Patient \<and>
                ((doctor_id r \<noteq> None) = (status r \<in> {Assigned, In_progress, Completed}))"
          and row: "update_row d uid now
            (no_update\<lparr>u_status := Some In_progress, u_started_at := Some (Some date)\<rparr>)
            (consultation_id item) r = Inr r'"
        show "exists_profile d (patient_id r') Patient \<and>
                ((doctor_id r' \<noteq> None) = (status r' \<in> {Assigned, In_progress, Completed}))"
        proof (cases "r' = r")
          case True
          with r show ?thesis by simp
        next
          case False
          from touched_row_is_visible [OF row False] doctor_sees_assigned_only [OF dist doc] r
          have "doctor_id r \<noteq> None" by blast
          moreover from started_row [OF row] False
          have "r' = r\<lparr>status := In_progress, started_at := Some date, updated_at := now\<rparr>"
            by simp
          ultimately show ?thesis using r by simp
        qed
      qed
    qed
  qed
next
  case (Complete_consultation date now item)
  show ?thesis
  proof (cases "isInProgress (useAuth_profile d uid) item")
    case False
    with Complete_consultation inv show ?thesis by (simp add: press_button_def)
  next
    case True
    then obtain p where p: "useAuth_profile d uid = Some p" "user_type p = Doctor"
      by (auto simp: isInProgress_def isDoctor_def split: option.splits)
    from useAuth_profile_role [OF p(1)] p(2) have doc: "exists_profile d uid Doctor" by simp
    let ?d' = "snd (snd (handleCompleteConsultation d uid (Some p) date now [] (consultation_id item)))"
    from True Complete_consultation p have pb: "press_button d uid b = ?d'"
      by (simp add: press_button_def)
    from handler_db(3) [of d uid "Some p" date now "[]" "consultation_id item"]
    show ?thesis unfolding pb
    proof
      assume "?d' = d"
      with inv show "?P ?d'" by simp
    next
      assume upd: "update_consultations d uid now
        (no_update\<lparr>u_status := Some Completed, u_completed_at := Some (Some date)\<rparr>)
        (consultation_id item) = Inr ?d'"
      show "?P ?d'"
      proof (rule update_consultations_pres [OF upd inv])
        fix r r'
        assume r: "exists_profile d (patient_id r) Patient \<and>
                ((doctor_id r \<noteq> None) = (status r \<in> {Assigned, In_progress, Completed}))"
          and row: "update_row d uid now
            (no_update\<lparr>u_status := Some Completed, u_completed_at := Some (Some date)\<rparr>)
            (consultation_id item) r = Inr r'"
        show "exists_profile d (patient_id r') Patient \<and>
                ((doctor_id r' \<noteq> None) = (status r' \<in> {Assigned, In_progress, Completed}))"
        proof (cases "r' = r")
          case True
          with r show ?thesis by simp
        next
          case False
          from touched_row_is_visible [OF row False] doctor_sees_assigned_only [OF dist doc] r
          have "doctor_id r \<noteq> None" by blast
          moreover from completed_row [OF row] False
          have "r' = r\<lparr>status := Completed, completed_at := Some date, updated_at := now\<rparr>"
            by simp
          ultimately show ?thesis using r by simp
        qed
      qed
    qed
  qed
qed

lemma run_invariant:
  assumes "distinct (map profiles_id (profiles d))"
    and "\<forall>r \<in> set (consultations d). exists_profile d (patient_id r) Patient \<and>
           ((doctor_id r \<noteq> None) = (status r \<in> {Assigned, In_progress, Completed}))"
  shows "\<forall>r \<in> set (consultations (run d bs)).
           (doctor_id r \<noteq> None) = (status r \<in> {Assigned, In_progress, Completed})"
  using assms
proof (induction bs arbitrary: d)
  case Nil
  then show ?case by simp
next
  case (Cons b bs)
  obtain uid c where b: "b = (uid, c)" by (cases b)
  let ?d = "press_button d uid c"
  from press_button_invariant [OF Cons.prems, of uid c]
  have p: "profiles ?d = profiles d"
    and i: "\<forall>r \<in> set (consultations ?d). exists_profile d (patient_id r) Patient \<and>
            ((doctor_id r \<noteq> None) = (status r \<in> {Assigned, In_progress, Completed}))"
    by simp_all
  from p Cons.prems(1) have "distinct (map profiles_id (profiles ?d))" by simp
  moreover from i exists_profile_same_profiles [OF p]
  have "\<forall>r \<in> set (consultations ?d). exists_profile ?d (patient_id r) Patient \<and>
            ((doctor_id r \<noteq> None) = (status r \<in> {Assigned, In_progress, Completed}))"
    by simp
  ultimately show ?case using Cons.IH [of ?d] b by simp
qed

section \<open>Creating a consultation\<close>

text \<open>
  C9. A request whose symptoms text is empty ends in the alert
  \<open>Please describe your symptoms\<close> (the validation failure) before any statement is
  sent: the store and the form are as they were, for every caller and every store.
\<close>

theorem create_empty_symptoms:
  "handleRequestConsultation d uid profile now fresh \<lparr>symptoms_state = [], urgencyLevel = u\<rparr> =
     Inr (Alert ''Error'' ''Please describe your symptoms'',
          \<lparr>symptoms_state = [], urgencyLevel = u\<rparr>, d)"
  by (simp add: handleRequestConsultation_def trim_def)

theorem create_empty_symptoms_witness:
  "handleRequestConsultation (example_db []) ''p1'' (Some (example_profile ''p1'' Patient)) 5 ''c1''
     \<lparr>symptoms_state = [], urgencyLevel = High\<rparr> =
     Inr (Alert ''Error'' ''Please describe your symptoms'',
          \<lparr>symptoms_state = [], urgencyLevel = High\<rparr>, example_db [])"
  using create_empty_symptoms
    [where d = "example_db []" and uid = "''p1''"
       and profile = "Some (example_profile ''p1'' Patient)" and now = 5 and fresh = "''c1''"
       and u = High]
  by simp

text \<open>
  C8 reads: a successful create inserts one pending row without a doctor and returns the
  identity of the new row. The handler returns nothing. What it leaves behind, the alert
  and the cleared form, is the same whichever identity \<open>gen_random_uuid()\<close> produced
  (\<open>c1\<close> or \<open>c2\<close> below), so the identity does not reach the caller.
\<close>

theorem create_returns_no_identity_counterexample:
  "handleRequestConsultation (example_db []) ''p1'' (Some (example_profile ''p1'' Patient)) 5 ''c1''
     \<lparr>symptoms_state = ''fever, chills'', urgencyLevel = High\<rparr> =
   Inr (Alert ''Success''
          ''Your consultation request has been submitted. A doctor will be assigned shortly.'',
        \<lparr>symptoms_state = [], urgencyLevel = Medium\<rparr>,
        example_db [(example_consultation ''c1'' ''p1'' None Pending)
                      \<lparr>created_at := 5, updated_at := 5\<rparr>]) \<and>
   handleRequestConsultation (example_db []) ''p1'' (Some (example_profile ''p1'' Patient)) 5 ''c2''
     \<lparr>symptoms_state = ''fever, chills'', urgencyLevel = High\<rparr> =
   Inr (Alert ''Success''
          ''Your consultation request has been submitted. A doctor will be assigned shortly.'',
        \<lparr>symptoms_state = [], urgencyLevel = Medium\<rparr>,
        example_db [(example_consultation ''c2'' ''p1'' None Pending)
                      \<lparr>created_at := 5, updated_at := 5\<rparr>])"
  by (simp add: handleRequestConsultation_def trim_def is_white_space_def
      policy_defs store_defs example_defs)

text \<open>
  C8, as amended. When the handler ends in the alert \<open>Success\<close>, the caller has a
  profile of type patient, the trimmed symptoms are not empty, and the table has grown by
  exactly one row: its \<open>status\<close> is pending and its \<open>doctor_id\<close> is null (the form
  has no input for either), its \<open>patient_id\<close> is the caller, its \<open>id\<close> is the one
  the store generated. Nothing else in the store changes and the form is cleared. The
  handler does not return this identity.
\<close>

theorem create_inserts_pending:
  assumes "handleRequestConsultation d uid profile now fresh s =
             Inr (Alert ''Success''
                    ''Your consultation request has been submitted. A doctor will be assigned shortly.'',
                  s', d')"
  shows "exists_profile d uid Patient \<and> trim (symptoms_state s) \<noteq> [] \<and>
         consultations d' = consultations d @
           [\<lparr>consultation_id = fresh, patient_id = uid, doctor_id = None, status = Pending,
             urgency_level = urgencyLevel s, symptoms = trim (symptoms_state s),
             consultation_notes = None, scheduled_at = None, started_at = None,
             completed_at = None, created_at = now, updated_at = now\<rparr>] \<and>
         profiles d' = profiles d \<and> doctors d' = doctors d \<and>
         s' = \<lparr>symptoms_state = [], urgencyLevel = Medium\<rparr>"
  using request_result [OF assms]
  by (auto simp: patients_can_create_consultations_def insert_defaults_def)

theorem create_inserts_pending_witness:
  "handleRequestConsultation (example_db []) ''p2'' (Some (example_profile ''p2'' Patient)) 5 ''c1''
     \<lparr>symptoms_state = '' chest pain'', urgencyLevel = Critical\<rparr> =
   Inr (Alert ''Success''
          ''Your consultation request has been submitted. A doctor will be assigned shortly.'',
        \<lparr>symptoms_state = [], urgencyLevel = Medium\<rparr>,
        example_db [\<lparr>consultation_id = ''c1'', patient_id = ''p2'', doctor_id = None,
             status = Pending, urgency_level = Critical, symptoms = ''chest pain'',
             consultation_notes = None, scheduled_at = None, started_at = None,
             completed_at = None, created_at = 5, updated_at = 5\<rparr>]) \<and>
   exists_profile (example_db []) ''p2'' Patient \<and>
   consultations (example_db [\<lparr>consultation_id = ''c1'', patient_id = ''p2'', doctor_id = None,
             status = Pending, urgency_level = Critical, symptoms = ''chest pain'',
             consultation_notes = None, scheduled_at = None, started_at = None,
             completed_at = None, created_at = 5, updated_at = 5\<rparr>]) =
     consultations (example_db []) @
       [\<lparr>consultation_id = ''c1'', patient_id = ''p2'', doctor_id = None,
             status = Pending, urgency_level = Critical, symptoms = ''chest pain'',
             consultation_notes = None, scheduled_at = None, started_at = None,
             completed_at = None, created_at = 5, updated_at = 5\<rparr>]"
  using create_inserts_pending
    [where d = "example_db []" and uid = "''p2''"
       and profile = "Some (example_profile ''p2'' Patient)" and now = 5 and fresh = "''c1''"
       and s = "\<lparr>symptoms_state = '' chest pain'', urgencyLevel = Critical\<rparr>"
       and s' = "\<lparr>symptoms_state = [], urgencyLevel = Medium\<rparr>"
       and d' = "example_db [\<lparr>consultation_id = ''c1'', patient_id = ''p2'', doctor_id = None,
             status = Pending, urgency_level = Critical, symptoms = ''chest pain'',
             consultation_notes = None, scheduled_at = None, started_at = None,
             completed_at = None, created_at = 5, updated_at = 5\<rparr>]"]
  by (simp add: handleRequestConsultation_def trim_def is_white_space_def
      policy_defs store_defs example_defs)

section \<open>Reading consultations\<close>

text \<open>
  C4 reads: a doctor may read every pending consultation. The \<open>SELECT\<close> policy shows
  a row to its patient and to the doctor whose id is its \<open>doctor_id\<close>, and a pending
  row has no doctor yet. For doctor \<open>d1\<close> the policy is false of the pending row of
  patient \<open>p1\<close>, and the list that \<open>fetchConsultations\<close> asks for (own rows or
  pending rows) comes back empty.
\<close>

theorem doctor_cannot_view_pending:
  "\<not> patients_can_view_own_consultations
       (example_db [example_consultation ''c1'' ''p1'' None Pending]) ''d1''
       (example_consultation ''c1'' ''p1'' None Pending) \<and>
   fetchConsultations (example_db [example_consultation ''c1'' ''p1'' None Pending]) ''d1''
     (Some (example_profile ''d1'' Doctor)) [] = []"
  by (simp add: fetchConsultations_def isDoctor_def policy_defs store_defs example_defs)

text \<open>
  C6 reads: a caller with role patient reads and writes no consultation of another
  patient. The policies ask whether the caller has a \<open>doctors\<close> row, not what the
  profile says. \<open>d1\<close> has a \<open>doctors\<close> row and a profile of type patient (the
  policy \<open>Users can update own profile\<close> lets a registered doctor set it so): a
  select by \<open>d1\<close> returns the consultation of patient \<open>p1\<close> that is assigned to
  \<open>d1\<close>, and \<open>d1\<close> cancels it.
\<close>

theorem patient_reads_as_doctor_counterexample:
  "exists_profile
     ((example_db [example_consultation ''c1'' ''p1'' (Some ''d1'') Assigned])
        \<lparr>profiles := [example_profile ''p1'' Patient, example_profile ''p2'' Patient,
                      example_profile ''d1'' Patient, example_profile ''d2'' Doctor]\<rparr>)
     ''d1'' Patient \<and>
   patient_id (example_consultation ''c1'' ''p1'' (Some ''d1'') Assigned) = ''p1'' \<and>
   select_consultations
     ((example_db [example_consultation ''c1'' ''p1'' (Some ''d1'') Assigned])
        \<lparr>profiles := [example_profile ''p1'' Patient, example_profile ''p2'' Patient,
                      example_profile ''d1'' Patient, example_profile ''d2'' Doctor]\<rparr>)
     ''d1'' (\<lambda>r. True) =
   [example_consultation ''c1'' ''p1'' (Some ''d1'') Assigned] \<and>
   update_consultations
     ((example_db [example_consultation ''c1'' ''p1'' (Some ''d1'') Assigned])
        \<lparr>profiles := [example_profile ''p1'' Patient, example_profile ''p2'' Patient,
                      example_profile ''d1'' Patient, example_profile ''d2'' Doctor]\<rparr>)
     ''d1'' 9 (no_update\<lparr>u_status := Some Cancelled\<rparr>) ''c1'' =
   Inr ((example_db [(example_consultation ''c1'' ''p1'' (Some ''d1'') Assigned)
                       \<lparr>status := Cancelled, updated_at := 9\<rparr>])
        \<lparr>profiles := [example_profile ''p1'' Patient, example_profile ''p2'' Patient,
                      example_profile ''d1'' Patient, example_profile ''d2'' Doctor]\<rparr>)"
  by (simp add: policy_defs store_defs example_defs)

text \<open>
  C6, as amended. A caller with role patient reads and writes no consultation whose
  \<open>patient_id\<close> is somebody else, unless the caller is the registered doctor assigned
  to it (\<open>doctor_id\<close> is the caller and the caller has a \<open>doctors\<close> row). For such
  a row the \<open>SELECT\<close> policy is false, no fetch of the caller returns it, and no
  \<open>UPDATE\<close> the caller sends (any columns, any target, cancelling included) changes
  it.
\<close>

theorem patient_cannot_touch_foreign_consultation:
  assumes "p \<in> set (profiles d)" and "profiles_id p = uid" and "user_type p = Patient"
    and "i < length (consultations d)"
    and "patient_id (consultations d ! i) \<noteq> uid"
    and "\<not> (doctor_id (consultations d ! i) = Some uid \<and> exists_doctor d uid)"
  shows "\<not> patients_can_view_own_consultations d uid (consultations d ! i) \<and>
         consultations d ! i \<notin> set (fetchConsultations d uid (Some p) shown) \<and>
         (\<forall>now u target d'. update_consultations d uid now u target = Inr d' \<longrightarrow>
            consultations d' ! i = consultations d ! i)"
proof -
  from not_visible_unrelated [OF assms(5,6)]
  have nv: "\<not> patients_can_view_own_consultations d uid (consultations d ! i)" .
  from nv fetch_visible have "consultations d ! i \<notin> set (fetchConsultations d uid (Some p) shown)"
    by blast
  moreover from nv assms(4) update_consultations_invisible
  have "\<forall>now u target d'. update_consultations d uid now u target = Inr d' \<longrightarrow>
            consultations d' ! i = consultations d ! i" by blast
  ultimately show ?thesis using nv by simp
qed

theorem patient_cannot_touch_foreign_consultation_witness:
  "example_profile ''p1'' Patient \<in>
      set (profiles (example_db [example_consultation ''c1'' ''p2'' (Some ''d1'') Assigned])) \<and>
   \<not> patients_can_view_own_consultations
        (example_db [example_consultation ''c1'' ''p2'' (Some ''d1'') Assigned]) ''p1''
        (example_consultation ''c1'' ''p2'' (Some ''d1'') Assigned) \<and>
   example_consultation ''c1'' ''p2'' (Some ''d1'') Assigned \<notin>
      set (fetchConsultations (example_db [example_consultation ''c1'' ''p2'' (Some ''d1'') Assigned])
             ''p1'' (Some (example_profile ''p1'' Patient)) []) \<and>
   update_consultations (example_db [example_consultation ''c1'' ''p2'' (Some ''d1'') Assigned]) ''p1'' 9
     (no_update\<lparr>u_status := Some Cancelled\<rparr>) ''c1'' =
   Inr (example_db [example_consultation ''c1'' ''p2'' (Some ''d1'') Assigned])"
  using patient_cannot_touch_foreign_consultation
    [where d = "example_db [example_consultation ''c1'' ''p2'' (Some ''d1'') Assigned]"
       and p = "example_profile ''p1'' Patient" and uid = "''p1''" and i = 0 and shown = "[]"]
  by (simp add: policy_defs store_defs example_defs)

section \<open>Accepting, starting and completing\<close>

text \<open>
  C1 reads: accepting a consultation that is not pending, or that has a doctor, fails
  with a conflict and leaves the row unchanged. Doctor \<open>d1\<close> accepts a consultation
  that is in progress and already has \<open>doctor_id = d1\<close>: no error, the alert is
  \<open>Success\<close>, and the row is changed (its status goes back to assigned).
\<close>

theorem claim_of_claimed_counterexample:
  "handleAcceptConsultation
     (example_db [example_consultation ''c1'' ''p1'' (Some ''d1'') In_progress]) ''d1''
     (Some (example_profile ''d1'' Doctor)) 9 [] ''c1'' =
   (Some (Alert ''Success'' ''Consultation accepted''),
    [(example_consultation ''c1'' ''p1'' (Some ''d1'') In_progress)
       \<lparr>status := Assigned, updated_at := 9\<rparr>],
    example_db [(example_consultation ''c1'' ''p1'' (Some ''d1'') In_progress)
       \<lparr>status := Assigned, updated_at := 9\<rparr>])"
  by (simp add: handleAcceptConsultation_def fetchConsultations_def isDoctor_def
      policy_defs store_defs example_defs)

text \<open>
  C1, as amended. In a store whose consultation ids are distinct, take a consultation
  that is not pending or already has a doctor. If the caller is neither its patient nor
  the registered doctor already assigned to it, the accept leaves the row and the rest of
  the store as they are; the statement updates no row, which is no error, so the handler
  shows \<open>Success\<close> and not a conflict. If the caller is the registered doctor already
  assigned to a consultation (and the profile is the caller's own), the accept is applied
  whatever the status: the row gets \<open>doctor_id\<close> = caller, \<open>status\<close> = assigned and
  a new \<open>updated_at\<close>, so neither a pending status nor a null \<open>doctor_id\<close> is
  required for the write. In both cases the outcome is fixed by the row as stored when
  the statement runs, whatever list the screen has fetched before.
\<close>

theorem claim_of_claimed:
  assumes "distinct (map consultation_id (consultations d))"
    and "r \<in> set (consultations d)"
  shows "((status r \<noteq> Pending \<or> doctor_id r \<noteq> None) \<and> patient_id r \<noteq> uid \<and>
          \<not> (doctor_id r = Some uid \<and> exists_doctor d uid) \<longrightarrow>
            handleAcceptConsultation d uid profile now shown (consultation_id r) =
              (Some (Alert ''Success'' ''Consultation accepted''),
               fetchConsultations d uid profile shown, d)) \<and>
         (doctor_id r = Some uid \<and> exists_doctor d uid \<and>
          map_option profiles_id profile = Some uid \<longrightarrow>
            (let d1 = d\<lparr>consultations :=
                        map (\<lambda>x. if consultation_id x = consultation_id r
                                  then r\<lparr>doctor_id := Some uid, status := Assigned,
                                         updated_at := now\<rparr>
                                  else x) (consultations d)\<rparr>
             in handleAcceptConsultation d uid profile now shown (consultation_id r) =
                  (Some (Alert ''Success'' ''Consultation accepted''),
                   fetchConsultations d1 uid profile shown, d1)))"
proof (intro conjI impI)
  let ?u = "no_update\<lparr>u_doctor_id :=
                 (case profile of None \<Rightarrow> None | Some p \<Rightarrow> Some (Some (profiles_id p))),
               u_status := Some Assigned\<rparr>"
  assume a: "(status r \<noteq> Pending \<or> doctor_id r \<noteq> None) \<and> patient_id r \<noteq> uid \<and>
          \<not> (doctor_id r = Some uid \<and> exists_doctor d uid)"
  then have nv: "\<not> patients_can_view_own_consultations d uid r"
    by (simp add: not_visible_unrelated)
  from update_one_row [OF assms update_row_invisible [OF nv]]
  have "update_consultations d uid now ?u (consultation_id r) =
          Inr (d\<lparr>consultations :=
                 map (\<lambda>x. if consultation_id x = consultation_id r then r else x)
                   (consultations d)\<rparr>)" .
  moreover have "map (\<lambda>x. if consultation_id x = consultation_id r then r else x)
                   (consultations d) = consultations d"
    using primary_key [OF assms] by (intro map_idI) auto
  ultimately have "update_consultations d uid now ?u (consultation_id r) = Inr d" by simp
  then show "handleAcceptConsultation d uid profile now shown (consultation_id r) =
              (Some (Alert ''Success'' ''Consultation accepted''),
               fetchConsultations d uid profile shown, d)"
    by (simp add: handleAcceptConsultation_def)
next
  assume b: "doctor_id r = Some uid \<and> exists_doctor d uid \<and>
          map_option profiles_id profile = Some uid"
  then have patch: "(case profile of None \<Rightarrow> None | Some p \<Rightarrow> Some (Some (profiles_id p))) =
      Some (Some uid)" by (auto split: option.splits)
  from b have row: "update_row d uid now
           (no_update\<lparr>u_doctor_id := Some (Some uid), u_status := Some Assigned\<rparr>)
           (consultation_id r) r =
         Inr (r\<lparr>doctor_id := Some uid, status := Assigned, updated_at := now\<rparr>)"
    by (simp add: accept_row_of_own_doctor)
  from update_one_row [OF assms row] patch
  show "let d1 = d\<lparr>consultations :=
                        map (\<lambda>x. if consultation_id x = consultation_id r
                                  then r\<lparr>doctor_id := Some uid, status := Assigned,
                                         updated_at := now\<rparr>
                                  else x) (consultations d)\<rparr>
             in handleAcceptConsultation d uid profile now shown (consultation_id r) =
                  (Some (Alert ''Success'' ''Consultation accepted''),
                   fetchConsultations d1 uid profile shown, d1)"
    by (simp add: handleAcceptConsultation_def Let_def)
qed

theorem claim_of_claimed_witness:
  "distinct (map consultation_id
      (consultations (example_db [example_consultation ''c1'' ''p1'' (Some ''d1'') Assigned]))) \<and>
   handleAcceptConsultation
     (example_db [example_consultation ''c1'' ''p1'' (Some ''d1'') Assigned]) ''d2''
     (Some (example_profile ''d2'' Doctor)) 9 [] ''c1'' =
   (Some (Alert ''Success'' ''Consultation accepted''), [],
    example_db [example_consultation ''c1'' ''p1'' (Some ''d1'') Assigned]) \<and>
   handleAcceptConsultation
     (example_db [example_consultation ''c1'' ''p1'' None Cancelled]) ''d2''
     (Some (example_profile ''d2'' Doctor)) 9 [] ''c1'' =
   (Some (Alert ''Success'' ''Consultation accepted''), [],
    example_db [example_consultation ''c1'' ''p1'' None Cancelled]) \<and>
   handleAcceptConsultation
     (example_db [example_consultation ''c1'' ''p1'' (Some ''d1'') Completed]) ''d1''
     (Some (example_profile ''d1'' Doctor)) 9 [] ''c1'' =
   (Some (Alert ''Success'' ''Consultation accepted''),
    [(example_consultation ''c1'' ''p1'' (Some ''d1'') Completed)
       \<lparr>status := Assigned, updated_at := 9\<rparr>],
    example_db [(example_consultation ''c1'' ''p1'' (Some ''d1'') Completed)
       \<lparr>status := Assigned, updated_at := 9\<rparr>])"
  using claim_of_claimed
    [where d = "example_db [example_consultation ''c1'' ''p1'' (Some ''d1'') Assigned]"
       and r = "example_consultation ''c1'' ''p1'' (Some ''d1'') Assigned"
       and uid = "''d2''" and profile = "Some (example_profile ''d2'' Doctor)" and now = 9
       and shown = "[]"]
    claim_of_claimed
    [where d = "example_db [example_consultation ''c1'' ''p1'' None Cancelled]"
       and r = "example_consultation ''c1'' ''p1'' None Cancelled"
       and uid = "''d2''" and profile = "Some (example_profile ''d2'' Doctor)" and now = 9
       and shown = "[]"]
    claim_of_claimed
    [where d = "example_db [example_consultation ''c1'' ''p1'' (Some ''d1'') Completed]"
       and r = "example_consultation ''c1'' ''p1'' (Some ''d1'') Completed"
       and uid = "''d1''" and profile = "Some (example_profile ''d1'' Doctor)" and now = 9
       and shown = "[]"]
  by (simp add: fetchConsultations_def isDoctor_def policy_defs store_defs example_defs)

text \<open>
  C2 reads: start is rejected unless the row is assigned, so a second start fails.
  Doctor \<open>d1\<close> starts the same consultation twice: the second start goes through as
  the first did and overwrites \<open>started_at\<close>.
\<close>

theorem start_twice_counterexample:
  "handleStartConsultation
     (snd (snd (handleStartConsultation
        (example_db [example_consultation ''c1'' ''p1'' (Some ''d1'') Assigned]) ''d1''
        (Some (example_profile ''d1'' Doctor)) 8 9 [] ''c1'')))
     ''d1'' (Some (example_profile ''d1'' Doctor)) 10 11 [] ''c1'' =
   (None,
    [(example_consultation ''c1'' ''p1'' (Some ''d1'') Assigned)
       \<lparr>status := In_progress, started_at := Some 10, updated_at := 11\<rparr>],
    example_db [(example_consultation ''c1'' ''p1'' (Some ''d1'') Assigned)
       \<lparr>status := In_progress, started_at := Some 10, updated_at := 11\<rparr>])"
  by (simp add: handleStartConsultation_def fetchConsultations_def isDoctor_def
      policy_defs store_defs example_defs)

text \<open>
  C2, as amended. Neither update looks at the status of the row. On a consultation whose
  \<open>doctor_id\<close> is the caller, a registered doctor, start succeeds from every status
  and sets \<open>in_progress\<close> and \<open>started_at\<close>, and complete succeeds from every
  status and sets \<open>completed\<close> and \<open>completed_at\<close>; no other row is touched. The
  status is only read by \<open>renderConsultation\<close>, from the list last fetched, to decide
  which button to draw.
\<close>

theorem start_complete_any_status:
  assumes "distinct (map consultation_id (consultations d))"
    and "r \<in> set (consultations d)"
    and "doctor_id r = Some uid" and "exists_doctor d uid"
    and "d1 = d\<lparr>consultations :=
            map (\<lambda>x. if consultation_id x = consultation_id r
                      then r\<lparr>status := In_progress, started_at := Some date, updated_at := now\<rparr>
                      else x) (consultations d)\<rparr>"
    and "d2 = d\<lparr>consultations :=
            map (\<lambda>x. if consultation_id x = consultation_id r
                      then r\<lparr>status := Completed, completed_at := Some date, updated_at := now\<rparr>
                      else x) (consultations d)\<rparr>"
  shows "handleStartConsultation d uid profile date now shown (consultation_id r) =
           (None, fetchConsultations d1 uid profile shown, d1) \<and>
         handleCompleteConsultation d uid profile date now shown (consultation_id r) =
           (Some (Alert ''Success'' ''Consultation completed''),
            fetchConsultations d2 uid profile shown, d2)"
proof -
  let ?s = "no_update\<lparr>u_status := Some In_progress, u_started_at := Some (Some date)\<rparr>"
  let ?c = "no_update\<lparr>u_status := Some Completed, u_completed_at := Some (Some date)\<rparr>"
  have "update_row d uid now ?s (consultation_id r) r =
          Inr (update_updated_at_column now (set_columns ?s r))"
    by (rule update_row_of_own_doctor [OF assms(3,4)]) (simp_all add: no_update_def)
  then have "update_row d uid now ?s (consultation_id r) r =
          Inr (r\<lparr>status := In_progress, started_at := Some date, updated_at := now\<rparr>)"
    by (simp add: update_updated_at_column_def set_columns_def no_update_def)
  from update_one_row [OF assms(1,2) this] assms(5)
  have s: "update_consultations d uid now ?s (consultation_id r) = Inr d1" by simp
  have "update_row d uid now ?c (consultation_id r) r =
          Inr (update_updated_at_column now (set_columns ?c r))"
    by (rule update_row_of_own_doctor [OF assms(3,4)]) (simp_all add: no_update_def)
  then have "update_row d uid now ?c (consultation_id r) r =
          Inr (r\<lparr>status := Completed, completed_at := Some date, updated_at := now\<rparr>)"
    by (simp add: update_updated_at_column_def set_columns_def no_update_def)
  from update_one_row [OF assms(1,2) this] assms(6)
  have c: "update_consultations d uid now ?c (consultation_id r) = Inr d2" by simp
  from s c show ?thesis
    by (simp add: handleStartConsultation_def handleCompleteConsultation_def)
qed

theorem start_complete_any_status_witness:
  "distinct (map consultation_id (consultations
      (example_db [example_consultation ''c1'' ''p1'' (Some ''d1'') Completed]))) \<and>
   exists_doctor (example_db [example_consultation ''c1'' ''p1'' (Some ''d1'') Completed]) ''d1'' \<and>
   handleStartConsultation (example_db [example_consultation ''c1'' ''p1'' (Some ''d1'') Completed])
      ''d1'' (Some (example_profile ''d1'' Doctor)) 8 9 [] ''c1'' =
     (None,
      [(example_consultation ''c1'' ''p1'' (Some ''d1'') Completed)
          \<lparr>status := In_progress, started_at := Some 8, updated_at := 9\<rparr>],
      example_db [(example_consultation ''c1'' ''p1'' (Some ''d1'') Completed)
          \<lparr>status := In_progress, started_at := Some 8, updated_at := 9\<rparr>])"
  using start_complete_any_status
    [where d = "example_db [example_consultation ''c1'' ''p1'' (Some ''d1'') Completed]"
       and r = "example_consultation ''c1'' ''p1'' (Some ''d1'') Completed" and uid = "''d1''"
       and date = 8 and now = 9 and profile = "Some (example_profile ''d1'' Doctor)"
       and shown = "[]", OF _ _ _ _ refl refl]
  by (simp add: fetchConsultations_def isDoctor_def policy_defs store_defs example_defs)

text \<open>
  C7 reads: a doctor never starts or completes a consultation assigned to another doctor,
  even one that the same person created as a patient. \<open>d1\<close> has role doctor and is
  the patient of a consultation assigned to doctor \<open>d2\<close>: the start goes through, by
  the patients' update policy.
\<close>

theorem start_complete_other_doctor_counterexample:
  "handleStartConsultation
     (example_db [example_consultation ''c1'' ''d1'' (Some ''d2'') Assigned]) ''d1''
     (Some (example_profile ''d1'' Doctor)) 8 9 [] ''c1'' =
   (None, [],
    example_db [(example_consultation ''c1'' ''d1'' (Some ''d2'') Assigned)
       \<lparr>status := In_progress, started_at := Some 8, updated_at := 9\<rparr>])"
  by (simp add: handleStartConsultation_def fetchConsultations_def isDoctor_def
      policy_defs store_defs example_defs)

text \<open>
  C7, as amended. A consultation whose \<open>doctor_id\<close> names somebody else and whose
  \<open>patient_id\<close> is not the caller either is never changed by the caller's start or
  complete, whatever row they are aimed at.
\<close>

theorem start_complete_other_doctor:
  assumes "i < length (consultations d)"
    and "doctor_id (consultations d ! i) = Some x" and "x \<noteq> uid"
    and "patient_id (consultations d ! i) \<noteq> uid"
  shows "consultations (snd (snd (handleStartConsultation d uid profile date now shown target))) ! i
           = consultations d ! i \<and>
         consultations (snd (snd (handleCompleteConsultation d uid profile date now shown target))) ! i
           = consultations d ! i"
proof -
  note nv = not_visible_other_doctor [OF assms(4,2,3), of d]
  have "consultations (snd (snd (handleStartConsultation d uid profile date now shown target))) ! i
           = consultations d ! i"
    using update_consultations_invisible [OF _ assms(1) nv]
    by (auto simp: handleStartConsultation_def split: sum.splits)
  moreover
  have "consultations (snd (snd (handleCompleteConsultation d uid profile date now shown target))) ! i
           = consultations d ! i"
    using update_consultations_invisible [OF _ assms(1) nv]
    by (auto simp: handleCompleteConsultation_def split: sum.splits)
  ultimately show ?thesis by simp
qed

theorem start_complete_other_doctor_witness:
  "(0::nat) < length (consultations (example_db [example_consultation ''c1'' ''p1'' (Some ''d2'') Assigned])) \<and>
   consultations (snd (snd (handleStartConsultation
      (example_db [example_consultation ''c1'' ''p1'' (Some ''d2'') Assigned]) ''d1''
      (Some (example_profile ''d1'' Doctor)) 8 9 [] ''c1''))) ! 0
     = example_consultation ''c1'' ''p1'' (Some ''d2'') Assigned \<and>
   consultations (snd (snd (handleCompleteConsultation
      (example_db [example_consultation ''c1'' ''p1'' (Some ''d2'') Assigned]) ''d1''
      (Some (example_profile ''d1'' Doctor)) 8 9 [] ''c1''))) ! 0
     = example_consultation ''c1'' ''p1'' (Some ''d2'') Assigned"
  using start_complete_other_doctor
    [where i = 0 and d = "example_db [example_consultation ''c1'' ''p1'' (Some ''d2'') Assigned]"
       and x = "''d2''" and uid = "''d1''" and profile = "Some (example_profile ''d1'' Doctor)"
       and date = 8 and now = 9 and shown = "[]" and target = "''c1''"]
  by (simp add: example_defs)

text \<open>
  C10. Start writes \<open>status\<close> and \<open>started_at\<close>, complete writes \<open>status\<close> and
  \<open>completed_at\<close>, the trigger writes \<open>updated_at\<close>: every row of the table is
  afterwards either as before or as before with these three columns set, so all other
  columns keep their values and no row appears or disappears.
\<close>

theorem start_complete_frame:
  assumes "i < length (consultations d)"
    and "d1 = snd (snd (handleStartConsultation d uid profile date now shown target))"
    and "d2 = snd (snd (handleCompleteConsultation d uid profile date now shown target))"
    and "r = consultations d ! i"
    and "r1 = consultations d1 ! i"
    and "r2 = consultations d2 ! i"
  shows "length (consultations d1) = length (consultations d) \<and>
         length (consultations d2) = length (consultations d) \<and>
         (r1 = r \<or> r1 = r\<lparr>status := In_progress, started_at := Some date, updated_at := now\<rparr>) \<and>
         (r2 = r \<or> r2 = r\<lparr>status := Completed, completed_at := Some date, updated_at := now\<rparr>) \<and>
         consultation_id r1 = consultation_id r \<and> consultation_id r2 = consultation_id r \<and>
         patient_id r1 = patient_id r \<and> patient_id r2 = patient_id r \<and>
         doctor_id r1 = doctor_id r \<and> doctor_id r2 = doctor_id r \<and>
         symptoms r1 = symptoms r \<and> symptoms r2 = symptoms r \<and>
         urgency_level r1 = urgency_level r \<and> urgency_level r2 = urgency_level r \<and>
         consultation_notes r1 = consultation_notes r \<and> consultation_notes r2 = consultation_notes r \<and>
         scheduled_at r1 = scheduled_at r \<and> scheduled_at r2 = scheduled_at r \<and>
         created_at r1 = created_at r \<and> created_at r2 = created_at r \<and>
         completed_at r1 = completed_at r \<and> started_at r2 = started_at r"
proof -
  have a: "length (consultations d1) = length (consultations d) \<and>
      (r1 = r \<or> r1 = r\<lparr>status := In_progress, started_at := Some date, updated_at := now\<rparr>)"
    using start_store [OF assms(1) assms(2)] assms(4,5) by simp
  have b: "length (consultations d2) = length (consultations d) \<and>
      (r2 = r \<or> r2 = r\<lparr>status := Completed, completed_at := Some date, updated_at := now\<rparr>)"
    using complete_store [OF assms(1) assms(3)] assms(4,6) by simp
  from a have a': "consultation_id r1 = consultation_id r \<and> patient_id r1 = patient_id r \<and>
     doctor_id r1 = doctor_id r \<and> symptoms r1 = symptoms r \<and> urgency_level r1 = urgency_level r \<and>
     consultation_notes r1 = consultation_notes r \<and> scheduled_at r1 = scheduled_at r \<and>
     created_at r1 = created_at r \<and> completed_at r1 = completed_at r"
    by auto
  from b have b': "consultation_id r2 = consultation_id r \<and> patient_id r2 = patient_id r \<and>
     doctor_id r2 = doctor_id r \<and> symptoms r2 = symptoms r \<and> urgency_level r2 = urgency_level r \<and>
     consultation_notes r2 = consultation_notes r \<and> scheduled_at r2 = scheduled_at r \<and>
     created_at r2 = created_at r \<and> started_at r2 = started_at r"
    by auto
  from a b a' b' show ?thesis by simp
qed

theorem start_complete_frame_witness:
  "(0::nat) < length (consultations (example_db [example_consultation ''c1'' ''p1'' (Some ''d1'') Assigned])) \<and>
   patient_id (consultations (snd (snd (handleStartConsultation
      (example_db [example_consultation ''c1'' ''p1'' (Some ''d1'') Assigned]) ''d1''
      (Some (example_profile ''d1'' Doctor)) 8 9 [] ''c1''))) ! 0) = ''p1'' \<and>
   doctor_id (consultations (snd (snd (handleCompleteConsultation
      (example_db [example_consultation ''c1'' ''p1'' (Some ''d1'') Assigned]) ''d1''
      (Some (example_profile ''d1'' Doctor)) 8 9 [] ''c1''))) ! 0) = Some ''d1'' \<and>
   status (consultations (snd (snd (handleStartConsultation
      (example_db [example_consultation ''c1'' ''p1'' (Some ''d1'') Assigned]) ''d1''
      (Some (example_profile ''d1'' Doctor)) 8 9 [] ''c1''))) ! 0) = In_progress"
  using start_complete_frame
    [where i = 0 and d = "example_db [example_consultation ''c1'' ''p1'' (Some ''d1'') Assigned]"
       and uid = "''d1''" and profile = "Some (example_profile ''d1'' Doctor)"
       and date = 8 and now = 9 and shown = "[]" and target = "''c1''",
     OF _ refl refl refl refl refl]
  by (simp add: handleStartConsultation_def handleCompleteConsultation_def
      policy_defs store_defs example_defs)

section \<open>What a patient may update\<close>

text \<open>
  C5 reads: a patient's update never sets \<open>doctor_id\<close> or \<open>status\<close>. Patient
  \<open>p1\<close> sets both on an own pending consultation, and the store accepts it: the
  policy \<open>Patients can update own consultations\<close> only compares \<open>patient_id\<close>.
\<close>

theorem patient_sets_status_counterexample:
  "update_consultations (example_db [example_consultation ''c1'' ''p1'' None Pending]) ''p1'' 9
     (no_update\<lparr>u_doctor_id := Some (Some ''d2''), u_status := Some Completed\<rparr>) ''c1'' =
   Inr (example_db [(example_consultation ''c1'' ''p1'' None Pending)
          \<lparr>doctor_id := Some ''d2'', status := Completed, updated_at := 9\<rparr>])"
  by (simp add: policy_defs store_defs example_defs)

text \<open>
  C5, as amended. For a consultation owned by the calling patient (who is no registered
  doctor), every update that the store accepts leaves \<open>patient_id\<close> equal to the
  caller; \<open>status\<close> and \<open>doctor_id\<close> end up with whatever value the request
  supplies, and keep their value only when the request leaves them out.
\<close>

theorem patient_update_keeps_patient_id:
  assumes "update_consultations d uid now u target = Inr d'"
    and "i < length (consultations d)"
    and "patient_id (consultations d ! i) = uid"
    and "consultation_id (consultations d ! i) = target"
    and "\<not> exists_doctor d uid"
  shows "patient_id (consultations d' ! i) = uid \<and>
         status (consultations d' ! i) =
           (case u_status u of None \<Rightarrow> status (consultations d ! i) | Some v \<Rightarrow> v) \<and>
         doctor_id (consultations d' ! i) =
           (case u_doctor_id u of None \<Rightarrow> doctor_id (consultations d ! i) | Some v \<Rightarrow> v)"
proof -
  let ?r = "consultations d ! i" and ?r' = "consultations d' ! i"
  from update_consultations_frame [OF assms(1)]
  have rows: "update_rows (update_row d uid now u target) (consultations d) = Inr (consultations d')"
    by simp
  note row = update_rows_nth [OF rows assms(2)]
  have vis: "patients_can_view_own_consultations d uid ?r" "update_using d uid ?r"
    using assms(3) by (simp_all add: policy_defs)
  note acc = update_row_accepted [OF row assms(4) vis]
  from acc have new: "?r' = update_updated_at_column now (set_columns u ?r)" by (rule conjunct1)
  from acc have chk: "update_with_check d uid ?r'" by blast
  from chk assms(5) have "patient_id ?r' = uid"
    by (auto simp: update_with_check_def patients_can_update_own_consultations_check_def
        doctors_can_update_assigned_consultations_check_def doctor_id_in_doctors_def
        exists_doctor_def split: option.splits)
  moreover from new have "status ?r' = (case u_status u of None \<Rightarrow> status ?r | Some v \<Rightarrow> v)"
    "doctor_id ?r' = (case u_doctor_id u of None \<Rightarrow> doctor_id ?r | Some v \<Rightarrow> v)"
    by (simp_all add: update_updated_at_column_def set_columns_def)
  ultimately show ?thesis by simp
qed

theorem patient_update_keeps_patient_id_witness:
  "update_consultations (example_db [example_consultation ''c1'' ''p1'' None Pending]) ''p1'' 9
     (no_update\<lparr>u_status := Some Cancelled\<rparr>) ''c1'' =
   Inr (example_db [(example_consultation ''c1'' ''p1'' None Pending)
          \<lparr>status := Cancelled, updated_at := 9\<rparr>]) \<and>
   \<not> exists_doctor (example_db [example_consultation ''c1'' ''p1'' None Pending]) ''p1'' \<and>
   patient_id (consultations (example_db [(example_consultation ''c1'' ''p1'' None Pending)
          \<lparr>status := Cancelled, updated_at := 9\<rparr>]) ! 0) = ''p1'' \<and>
   status (consultations (example_db [(example_consultation ''c1'' ''p1'' None Pending)
          \<lparr>status := Cancelled, updated_at := 9\<rparr>]) ! 0) = Cancelled"
  using patient_update_keeps_patient_id
    [where d = "example_db [example_consultation ''c1'' ''p1'' None Pending]" and uid = "''p1''"
       and now = 9 and u = "no_update\<lparr>u_status := Some Cancelled\<rparr>" and target = "''c1''"
       and i = 0
       and d' = "example_db [(example_consultation ''c1'' ''p1'' None Pending)
          \<lparr>status := Cancelled, updated_at := 9\<rparr>]"]
  by (simp add: policy_defs store_defs example_defs)

section \<open>The invariant of the life cycle\<close>

text \<open>
  C3 reads: every row reachable through create, claim, start, complete and the
  patient-side update has a doctor exactly when its status is assigned, in progress or
  completed. Patient \<open>p1\<close> requests a consultation and then updates its status under
  the patients' update policy: the row is assigned and has no doctor.
\<close>

theorem patient_update_breaks_invariant_counterexample:
  "update_consultations
     (run (example_db [])
        [(''p1'', Request_consultation 5 ''c1''
                    \<lparr>symptoms_state = ''fever, chills'', urgencyLevel = High\<rparr>)])
     ''p1'' 9 (no_update\<lparr>u_status := Some Assigned\<rparr>) ''c1'' =
   Inr (example_db [(example_consultation ''c1'' ''p1'' None Pending)
          \<lparr>status := Assigned, created_at := 5, updated_at := 9\<rparr>]) \<and>
   doctor_id ((example_consultation ''c1'' ''p1'' None Pending)
          \<lparr>status := Assigned, created_at := 5, updated_at := 9\<rparr>) = None \<and>
   status ((example_consultation ''c1'' ''p1'' None Pending)
          \<lparr>status := Assigned, created_at := 5, updated_at := 9\<rparr>) = Assigned"
  by (simp add: press_button_def useAuth_profile_def isPatient_def handleRequestConsultation_def
      trim_def is_white_space_def policy_defs store_defs example_defs)

text \<open>
  C3, as amended. The invariant is kept by what the screens expose: the request form
  (drawn for a patient) and the accept, start and complete buttons (drawn for a doctor,
  on an item of a possibly outdated list). Starting from a store whose profiles have
  distinct ids and whose consultations satisfy the invariant and belong to profiles of
  type patient, every row after any sequence of presses by any users has a doctor exactly
  when its status is assigned, in progress or completed. The patient-side update, which
  the policy permits and no screen sends, is not among the steps.
\<close>

theorem lifecycle_invariant:
  assumes "distinct (map profiles_id (profiles d))"
    and "\<forall>r \<in> set (consultations d). exists_profile d (patient_id r) Patient \<and>
           ((doctor_id r \<noteq> None) = (status r \<in> {Assigned, In_progress, Completed}))"
    and "r \<in> set (consultations (run d bs))"
  shows "(doctor_id r \<noteq> None) = (status r \<in> {Assigned, In_progress, Completed})"
  using run_invariant [OF assms(1,2)] assms(3) by blast

theorem lifecycle_invariant_witness:
  "distinct (map profiles_id
      (profiles (example_db [example_consultation ''c1'' ''p1'' (Some ''d1'') Assigned]))) \<and>
   run (example_db [example_consultation ''c1'' ''p1'' (Some ''d1'') Assigned])
     [(''p2'', Request_consultation 5 ''c2''
                 \<lparr>symptoms_state = ''fever, chills'', urgencyLevel = High\<rparr>),
      (''d1'', Start_consultation 8 9 (example_consultation ''c1'' ''p1'' (Some ''d1'') Assigned)),
      (''d1'', Complete_consultation 10 11
                 (example_consultation ''c1'' ''p1'' (Some ''d1'') In_progress))] =
   example_db
     [(example_consultation ''c1'' ''p1'' (Some ''d1'') Completed)
        \<lparr>started_at := Some 8, completed_at := Some 10, updated_at := 11\<rparr>,
      (example_consultation ''c2'' ''p2'' None Pending)\<lparr>created_at := 5, updated_at := 5\<rparr>] \<and>
   (doctor_id ((example_consultation ''c1'' ''p1'' (Some ''d1'') Completed)
        \<lparr>started_at := Some 8, completed_at := Some 10, updated_at := 11\<rparr>) \<noteq> None) =
   (status ((example_consultation ''c1'' ''p1'' (Some ''d1'') Completed)
        \<lparr>started_at := Some 8, completed_at := Some 10, updated_at := 11\<rparr>)
      \<in> {Assigned, In_progress, Completed})"
  using lifecycle_invariant
    [where d = "example_db [example_consultation ''c1'' ''p1'' (Some ''d1'') Assigned]"
       and bs = "[(''p2'', Request_consultation 5 ''c2''
                 \<lparr>symptoms_state = ''fever, chills'', urgencyLevel = High\<rparr>),
      (''d1'', Start_consultation 8 9 (example_consultation ''c1'' ''p1'' (Some ''d1'') Assigned)),
      (''d1'', Complete_consultation 10 11
                 (example_consultation ''c1'' ''p1'' (Some ''d1'') In_progress))]"
       and r = "(example_consultation ''c1'' ''p1'' (Some ''d1'') Completed)
        \<lparr>started_at := Some 8, completed_at := Some 10, updated_at := 11\<rparr>"]
  by (simp add: press_button_def useAuth_profile_def isPatient_def isDoctor_def isAssigned_def
      isInProgress_def handleRequestConsultation_def handleStartConsultation_def
      handleCompleteConsultation_def fetchConsultations_def
      trim_def is_white_space_def policy_defs store_defs example_defs)

end
